theory Spec2Isabelle
  imports Main
begin

section \<open>JavaScript values\<close>

text \<open>
  The provider responses, the scenes and the request bodies of the story game are plain
  JavaScript data. A value is one of the following; an object is the list of its own
  properties in enumeration order (each key once), an array the list of its elements.
  A number is an integer or NaN: these are the numbers that \<^verbatim>\<open>parseInt\<close>,
  \<^verbatim>\<open>length\<close> and \<^verbatim>\<open>Date.now\<close> produce, taken in the range where JavaScript holds an
  integer exactly and prints all its digits. A string is a list of 8-bit code units, so
  the line terminators of a regular expression are LF and CR, and the white space of
  \<^verbatim>\<open>\s\<close> and \<^verbatim>\<open>trim\<close> is TAB, LF, VT, FF, CR, SPACE and NBSP.
\<close>

datatype jsnum = Integer int | NaN

datatype jsval =
    JUndefined
  | JNull
  | JBool bool
  | JNum jsnum
  | JStr string
  | JArr "jsval list"
  | JObj "(string \<times> jsval) list"

text \<open>What a \<^verbatim>\<open>throw\<close> carries: the kind of the error and its message.\<close>

datatype exn = TypeError string | SyntaxError string | Error string

fun message :: "exn \<Rightarrow> string" where
  "message (TypeError m) = m"
| "message (SyntaxError m) = m"
| "message (Error m) = m"

text \<open>\<^verbatim>\<open>if (v)\<close>, \<^verbatim>\<open>!v\<close>, \<^verbatim>\<open>a && b\<close>, \<^verbatim>\<open>a || b\<close>: ToBoolean.\<close>

fun truthy :: "jsval \<Rightarrow> bool" where
  "truthy JUndefined = False"
| "truthy JNull = False"
| "truthy (JBool b) = b"
| "truthy (JNum (Integer n)) = (n \<noteq> 0)"
| "truthy (JNum NaN) = False"
| "truthy (JStr s) = (s \<noteq> [])"
| "truthy (JArr xs) = True"
| "truthy (JObj kvs) = True"

text \<open>\<^verbatim>\<open>typeof v === 'object'\<close> (true of null and of arrays) and \<^verbatim>\<open>Array.isArray(v)\<close>. The
  test \<^verbatim>\<open>typeof v === 'string'\<close> is a \<open>case\<close> on \<open>JStr\<close> where it occurs.\<close>

fun typeof_object :: "jsval \<Rightarrow> bool" where
  "typeof_object JNull = True"
| "typeof_object (JArr xs) = True"
| "typeof_object (JObj kvs) = True"
| "typeof_object v = False"

fun isArray :: "jsval \<Rightarrow> bool" where
  "isArray (JArr xs) = True"
| "isArray v = False"

text \<open>
  \<^verbatim>\<open>v.k\<close> for a property name \<open>k\<close> that is not an array index: the own property of an
  object, \<^verbatim>\<open>length\<close> of an array or a string, and \<^verbatim>\<open>undefined\<close> otherwise. Reading a
  property of null or undefined throws a TypeError; \<open>field\<close> is the read where the
  source has already tested the receiver to be truthy, \<open>get\<close> the unguarded read.
\<close>

fun field :: "jsval \<Rightarrow> string \<Rightarrow> jsval" where
  "field (JObj kvs) k = (case map_of kvs k of Some v \<Rightarrow> v | None \<Rightarrow> JUndefined)"
| "field (JArr xs) k = (if k = ''length'' then JNum (Integer (int (length xs))) else JUndefined)"
| "field (JStr s) k = (if k = ''length'' then JNum (Integer (int (length s))) else JUndefined)"
| "field v k = JUndefined"

definition nullish :: "jsval \<Rightarrow> bool" where
  "nullish v = (v = JUndefined \<or> v = JNull)"

definition get :: "jsval \<Rightarrow> string \<Rightarrow> exn + jsval" where
  "get v k =
     (if nullish v then Inl (TypeError (''Cannot read properties of null or undefined, reading '' @ k))
      else Inr (field v k))"

section \<open>Strings and regular expressions\<close>

definition dq :: char where
  "dq = CHR 0x22"

definition is_line_terminator :: "char \<Rightarrow> bool" where
  "is_line_terminator c = (c = CHR 0x0A \<or> c = CHR 0x0D)"

text \<open>
  \<^verbatim>\<open>output.match(/"(.*?)"/g)\<close>. After an opening quote at some position the lazy
  \<^verbatim>\<open>.*?\<close> stops at the nearest closing quote, and fails when a line terminator comes
  first, since \<^verbatim>\<open>.\<close> does not match one; \<open>closing_quote cs\<close> is the distance to that
  closing quote in the text \<open>cs\<close> after the opening one. With the flag \<^verbatim>\<open>g\<close> the
  search resumes right after each match, and after a failed start at the next position.
  The matches are the quoted substrings with their quotes.
\<close>

fun closing_quote :: "string \<Rightarrow> nat option" where
  "closing_quote [] = None"
| "closing_quote (c # cs) =
     (if c = dq then Some 0
      else if is_line_terminator c then None
      else map_option Suc (closing_quote cs))"

fun match_quoted_g :: "string \<Rightarrow> string list" where
  "match_quoted_g [] = []"
| "match_quoted_g (c # cs) =
     (if c = dq then
        (case closing_quote cs of
           Some n \<Rightarrow> (dq # take n cs @ [dq]) # match_quoted_g (drop (Suc n) cs)
         | None \<Rightarrow> match_quoted_g cs)
      else match_quoted_g cs)"

text \<open>\<^verbatim>\<open>choice.replace(/"/g, '')\<close>.\<close>

definition strip_quotes :: "string \<Rightarrow> string" where
  "strip_quotes s = filter (\<lambda>c. c \<noteq> dq) s"

text \<open>Decimal digits of a natural number and of an integer: \<^verbatim>\<open>n.toString()\<close>.\<close>

definition digit_char :: "nat \<Rightarrow> char" where
  "digit_char d = ''0123456789'' ! d"

fun show_nat :: "nat \<Rightarrow> string" where
  "show_nat n = (if n < 10 then [digit_char n] else show_nat (n div 10) @ [digit_char (n mod 10)])"

declare show_nat.simps [simp del]

definition show_int :: "int \<Rightarrow> string" where
  "show_int i = (if i < 0 then CHR ''-'' # show_nat (nat (- i)) else show_nat (nat i))"

fun show_num :: "jsnum \<Rightarrow> string" where
  "show_num (Integer i) = show_int i"
| "show_num NaN = ''NaN''"

text \<open>\<^verbatim>\<open>xs.join(sep)\<close> on strings.\<close>

fun join :: "string \<Rightarrow> string list \<Rightarrow> string" where
  "join sep [] = []"
| "join sep [x] = x"
| "join sep (x # y # ys) = x @ sep @ join sep (y # ys)"

text \<open>
  ToString, as applied by a template literal \<^verbatim>\<open>${v}\<close>, by \<^verbatim>\<open>String(v)\<close> and by \<^verbatim>\<open>+\<close> with
  a string operand: an array joins its elements with commas, null and undefined elements
  giving the empty string; a plain object gives \<^verbatim>\<open>[object Object]\<close>.
\<close>

fun toString_js :: "jsval \<Rightarrow> string" where
  "toString_js JUndefined = ''undefined''"
| "toString_js JNull = ''null''"
| "toString_js (JBool b) = (if b then ''true'' else ''false'')"
| "toString_js (JNum n) = show_num n"
| "toString_js (JStr s) = s"
| "toString_js (JArr xs) =
     join '','' (map (\<lambda>x. if x = JUndefined \<or> x = JNull then [] else toString_js x) xs)"
| "toString_js (JObj kvs) = ''[object Object]''"

text \<open>White space of \<^verbatim>\<open>\s\<close>, of \<^verbatim>\<open>trim\<close> and of \<^verbatim>\<open>parseInt\<close>.\<close>

definition is_space :: "char \<Rightarrow> bool" where
  "is_space c = (c \<in> {CHR 0x09, CHR 0x0A, CHR 0x0B, CHR 0x0C, CHR 0x0D, CHR 0x20, CHR 0xA0})"

definition trim :: "string \<Rightarrow> string" where
  "trim s = rev (dropWhile is_space (rev (dropWhile is_space s)))"

definition is_digit :: "char \<Rightarrow> bool" where
  "is_digit c = (48 \<le> (of_char c :: nat) \<and> (of_char c :: nat) \<le> 57)"

definition read_nat :: "string \<Rightarrow> nat" where
  "read_nat ds = foldl (\<lambda>a c. 10 * a + (of_char c - 48)) 0 ds"

text \<open>
  \<^verbatim>\<open>parseInt(v, 10)\<close>: the string of \<open>v\<close> without leading white space, an optional sign,
  then the longest run of decimal digits; NaN when there is no digit.
\<close>

definition parseInt :: "jsval \<Rightarrow> jsnum" where
  "parseInt v =
     (let s = dropWhile is_space (toString_js v);
          neg = (take 1 s = ''-'');
          t = (if take 1 s = ''-'' \<or> take 1 s = ''+'' then drop 1 s else s);
          ds = takeWhile is_digit t
      in if ds = [] then NaN
         else Integer (if neg then - int (read_nat ds) else int (read_nat ds)))"

text \<open>\<^verbatim>\<open>s.includes(sub)\<close>.\<close>

fun str_includes :: "string \<Rightarrow> string \<Rightarrow> bool" where
  "str_includes [] sub = (sub = [])"
| "str_includes (c # cs) sub = (take (length sub) (c # cs) = sub \<or> str_includes cs sub)"

text \<open>\<^verbatim>\<open>s.toLowerCase()\<close> on 8-bit code units: A to Z and the capital letters of Latin-1
  move up by 32; no other code unit becomes an ASCII letter.\<close>

definition lower_char :: "char \<Rightarrow> char" where
  "lower_char c =
     (if 65 \<le> (of_char c :: nat) \<and> (of_char c :: nat) \<le> 90 then char_of (of_char c + 32 :: nat)
      else if (192 \<le> (of_char c :: nat) \<and> (of_char c :: nat) \<le> 222) \<and> (of_char c :: nat) \<noteq> 215
        then char_of (of_char c + 32 :: nat)
      else c)"

definition toLowerCase :: "string \<Rightarrow> string" where
  "toLowerCase s = map lower_char s"

text \<open>\<^verbatim>\<open>s.split('\n')\<close>: the pieces between line feeds; one piece when there is none.\<close>

fun split_lines :: "string \<Rightarrow> string list" where
  "split_lines [] = [[]]"
| "split_lines (c # cs) =
     (if c = CHR 0x0A then [] # split_lines cs
      else (case split_lines cs of l # ls \<Rightarrow> (c # l) # ls | [] \<Rightarrow> [[c]]))"

section \<open>JSON.stringify\<close>

definition hex_char :: "nat \<Rightarrow> char" where
  "hex_char d = ''0123456789abcdef'' ! d"

definition json_escape :: "char \<Rightarrow> string" where
  "json_escape c =
     (if c = dq then [CHR 0x5C, dq]
      else if c = CHR 0x5C then [CHR 0x5C, CHR 0x5C]
      else if c = CHR 0x08 then [CHR 0x5C, CHR ''b'']
      else if c = CHR 0x0C then [CHR 0x5C, CHR ''f'']
      else if c = CHR 0x0A then [CHR 0x5C, CHR ''n'']
      else if c = CHR 0x0D then [CHR 0x5C, CHR ''r'']
      else if c = CHR 0x09 then [CHR 0x5C, CHR ''t'']
      else if (of_char c :: nat) < 32 then
        [CHR 0x5C, CHR ''u'', CHR ''0'', CHR ''0'',
         hex_char ((of_char c :: nat) div 16), hex_char ((of_char c :: nat) mod 16)]
      else [c])"

definition json_quote :: "string \<Rightarrow> string" where
  "json_quote s = dq # concat (map json_escape s) @ [dq]"

text \<open>
  \<^verbatim>\<open>JSON.stringify(v)\<close>, \<open>None\<close> for the result \<^verbatim>\<open>undefined\<close>. In an array an undefined
  element is written \<^verbatim>\<open>null\<close>; in an object a property with an undefined value is
  left out; NaN is written \<^verbatim>\<open>null\<close>.
\<close>

fun stringify :: "jsval \<Rightarrow> string option" where
  "stringify JUndefined = None"
| "stringify JNull = Some ''null''"
| "stringify (JBool b) = Some (if b then ''true'' else ''false'')"
| "stringify (JNum (Integer i)) = Some (show_int i)"
| "stringify (JNum NaN) = Some ''null''"
| "stringify (JStr s) = Some (json_quote s)"
| "stringify (JArr xs) =
     Some (''['' @ join '','' (map (\<lambda>x. case stringify x of None \<Rightarrow> ''null'' | Some t \<Rightarrow> t) xs) @ '']'')"
| "stringify (JObj kvs) =
     Some (''{'' @ join '',''
        (concat (map (\<lambda>kv. case stringify (snd kv) of None \<Rightarrow> []
                              | Some t \<Rightarrow> [json_quote (fst kv) @ '':'' @ t]) kvs)) @ ''}'')"

section \<open>The server of the main variant: choice extraction\<close>

definition DEFAULT_CHOICES :: "string list" where
  "DEFAULT_CHOICES =
     [''Continue exploring'', ''Take a different path'', ''Stop and observe your surroundings'']"

definition strings :: "string list \<Rightarrow> jsval" where
  "strings xs = JArr (map JStr xs)"

text \<open>
  The body of the \<^verbatim>\<open>try\<close> of \<^verbatim>\<open>extractChoices\<close>. Its first statement logs
  \<^verbatim>\<open>JSON.stringify(choicesResponse).substring(0, 200)\<close>: \<^verbatim>\<open>JSON.stringify(undefined)\<close>
  is \<^verbatim>\<open>undefined\<close>, whose \<^verbatim>\<open>substring\<close> cannot be read. \<^verbatim>\<open>output.match\<close> is a function
  only when \<^verbatim>\<open>output\<close> is a string; calling it on any other truthy value throws.
\<close>

definition extractChoices_try :: "jsval \<Rightarrow> exn + jsval" where
  "extractChoices_try choicesResponse =
     (if choicesResponse = JUndefined then
        Inl (TypeError ''Cannot read properties of undefined, reading substring'')
      else
        (case choicesResponse of
           JArr xs \<Rightarrow> Inr (if 0 < length xs then JArr xs else strings DEFAULT_CHOICES)
         | _ \<Rightarrow>
           if \<not> truthy choicesResponse \<or> \<not> typeof_object choicesResponse then
             Inr (strings DEFAULT_CHOICES)
           else if truthy (field choicesResponse ''data'')
                   \<and> truthy (field (field choicesResponse ''data'') ''output'') then
             (case field (field choicesResponse ''data'') ''output'' of
                JStr output \<Rightarrow>
                  (case match_quoted_g output of
                     [] \<Rightarrow> Inr (strings DEFAULT_CHOICES)
                   | m # ms \<Rightarrow>
                       (let cleanedChoices = map strip_quotes (m # ms) in
                        if length cleanedChoices < 3 then
                          (let neededDefaults = 3 - length cleanedChoices in
                           Inr (strings (cleanedChoices @ take neededDefaults DEFAULT_CHOICES)))
                        else Inr (strings (take 3 cleanedChoices))))
              | _ \<Rightarrow> Inl (TypeError ''output.match is not a function''))
           else Inr (strings DEFAULT_CHOICES)))"

text \<open>The \<^verbatim>\<open>catch\<close> of \<^verbatim>\<open>extractChoices\<close> returns the defaults.\<close>

definition extractChoices :: "jsval \<Rightarrow> jsval" where
  "extractChoices choicesResponse =
     (case extractChoices_try choicesResponse of
        Inr v \<Rightarrow> v
      | Inl e \<Rightarrow> strings DEFAULT_CHOICES)"

section \<open>The server of the copy variant: text and choice extraction\<close>

text \<open>
  \<^verbatim>\<open>JSON.parse\<close> is the parameter \<open>parse\<close> of the functions that call it: \<open>None\<close> stands
  for the SyntaxError it throws.

  \<^verbatim>\<open>data.match(/```json\s*(\[[\s\S]*?\])\s*```/)\<close>: \<open>code_block_match\<close> is the first
  group of the leftmost match. At a start position the fence and the tag are followed by
  white space and an opening bracket; the lazy body ends at the first closing bracket
  that is followed by white space and a closing fence.
\<close>

definition fence_close :: "string \<Rightarrow> bool" where
  "fence_close s = (take 3 (dropWhile is_space s) = ''```'')"

fun lazy_bracket :: "string \<Rightarrow> string option" where
  "lazy_bracket [] = None"
| "lazy_bracket (c # cs) =
     (if c = CHR '']'' \<and> fence_close cs then Some [c]
      else map_option ((#) c) (lazy_bracket cs))"

definition code_block_at :: "string \<Rightarrow> string option" where
  "code_block_at s =
     (if take 7 s = ''```json'' then
        (case dropWhile is_space (drop 7 s) of
           [] \<Rightarrow> None
         | c # cs \<Rightarrow> if c = CHR ''['' then map_option ((#) c) (lazy_bracket cs) else None)
      else None)"

fun code_block_match :: "string \<Rightarrow> string option" where
  "code_block_match [] = None"
| "code_block_match (c # cs) =
     (case code_block_at (c # cs) of
        Some g \<Rightarrow> Some g
      | None \<Rightarrow> code_block_match cs)"

text \<open>
  The block \<^verbatim>\<open>try { const parsed = JSON.parse(s); return parsed.output || s; }
  catch (e) { return s; }\<close>, which \<^verbatim>\<open>extractText\<close> has once for a string response and once
  for a string \<^verbatim>\<open>data\<close>. Reading \<^verbatim>\<open>output\<close> of a parsed \<^verbatim>\<open>null\<close> throws inside the block.
\<close>

definition parsed_output_or :: "(string \<Rightarrow> jsval option) \<Rightarrow> string \<Rightarrow> jsval" where
  "parsed_output_or parse s =
     (case parse s of
        None \<Rightarrow> JStr s
      | Some parsed \<Rightarrow>
          (case get parsed ''output'' of
             Inl e \<Rightarrow> JStr s
           | Inr out \<Rightarrow> if truthy out then out else JStr s))"

definition extractText_try :: "(string \<Rightarrow> jsval option) \<Rightarrow> jsval \<Rightarrow> exn + jsval" where
  "extractText_try parse textResponse =
     (let defaultText = JStr ''The adventure continues...'' in
      if \<not> truthy textResponse then Inr defaultText
      else
        (case textResponse of
           JStr s \<Rightarrow> Inr (parsed_output_or parse s)
         | _ \<Rightarrow>
           if typeof_object textResponse then
             (if truthy (field textResponse ''data'') then
                (let data = field textResponse ''data'' in
                 case data of
                   JStr d \<Rightarrow> Inr (parsed_output_or parse d)
                 | _ \<Rightarrow>
                   if typeof_object data \<and> data \<noteq> JNull \<and> truthy (field data ''output'')
                   then Inr (field data ''output'')
                   else Inr (case stringify data of Some t \<Rightarrow> JStr t | None \<Rightarrow> JUndefined))
              else if truthy (field textResponse ''output'') then Inr (field textResponse ''output'')
              else if truthy (field textResponse ''text'') then Inr (field textResponse ''text'')
              else Inr defaultText)
           else Inr defaultText))"

definition extractText :: "(string \<Rightarrow> jsval option) \<Rightarrow> jsval \<Rightarrow> jsval" where
  "extractText parse textResponse =
     (case extractText_try parse textResponse of
        Inr v \<Rightarrow> v
      | Inl e \<Rightarrow> JStr ''The story continues...'')"

text \<open>
  The block that \<^verbatim>\<open>extractChoices\<close> of the copy variant applies to a string \<^verbatim>\<open>data\<close> and to
  a string \<^verbatim>\<open>data.output\<close>: the array parsed from the fenced block, when there is a
  block, it parses, and the result is a non-empty array.
\<close>

definition choices_of_code_block :: "(string \<Rightarrow> jsval option) \<Rightarrow> string \<Rightarrow> jsval option" where
  "choices_of_code_block parse s =
     (case code_block_match s of
        None \<Rightarrow> None
      | Some g \<Rightarrow>
          (case parse g of
             Some (JArr choices) \<Rightarrow> if 0 < length choices then Some (JArr choices) else None
           | _ \<Rightarrow> None))"

definition extractChoices_copy_try :: "(string \<Rightarrow> jsval option) \<Rightarrow> jsval \<Rightarrow> exn + jsval" where
  "extractChoices_copy_try parse choicesResponse =
     (let defaultChoices = strings DEFAULT_CHOICES in
      case choicesResponse of
        JArr xs \<Rightarrow> Inr (if 0 < length xs then JArr xs else defaultChoices)
      | _ \<Rightarrow>
        if truthy choicesResponse \<and> typeof_object choicesResponse
           \<and> truthy (field choicesResponse ''data'') then
          (let data = field choicesResponse ''data'' in
           case data of
             JArr ds \<Rightarrow> Inr (if 0 < length ds then JArr ds else defaultChoices)
           | JStr d \<Rightarrow>
               (case choices_of_code_block parse d of
                  Some choices \<Rightarrow> Inr choices
                | None \<Rightarrow> Inr defaultChoices)
           | _ \<Rightarrow>
               if typeof_object data \<and> data \<noteq> JNull \<and> truthy (field data ''output'') then
                 (case field data ''output'' of
                    JStr out \<Rightarrow>
                      (case choices_of_code_block parse out of
                         Some choices \<Rightarrow> Inr choices
                       | None \<Rightarrow> Inr defaultChoices)
                  | _ \<Rightarrow> Inr defaultChoices)
               else Inr defaultChoices)
        else Inr defaultChoices)"

text \<open>The \<^verbatim>\<open>catch\<close> of the copy variant returns a triple of its own.\<close>

definition extractChoices_copy_catch :: "exn \<Rightarrow> jsval" where
  "extractChoices_copy_catch e =
     strings [''Continue forward'', ''Look for another path'', ''Rest and consider your options'']"

definition extractChoices_copy :: "(string \<Rightarrow> jsval option) \<Rightarrow> jsval \<Rightarrow> jsval" where
  "extractChoices_copy parse choicesResponse =
     (case extractChoices_copy_try parse choicesResponse of
        Inr v \<Rightarrow> v
      | Inl e \<Rightarrow> extractChoices_copy_catch e)"

section \<open>The game state of the main variant\<close>

text \<open>
  A call of \<^verbatim>\<open>fal.subscribe\<close> is an exchange with the provider: the model takes what came
  back as an argument, \<open>Inr\<close> the result or \<open>Inl\<close> what the rejected promise threw, and
  returns the requests that were sent, each the endpoint and the prompt.
\<close>

type_synonym outcome = "exn + jsval"

type_synonym request = "string \<times> string"

record GameState =
  currentScene :: jsval
  history :: "jsval list"

definition NL :: string where
  "NL = [CHR 0x0A]"

text \<open>\<^verbatim>\<open>process.env.FAL_KEY\<close> is the argument \<open>env\<close>: a string when the variable is set.\<close>

definition configureFalClient :: "string option \<Rightarrow> exn + unit" where
  "configureFalClient env =
     (case env of
        None \<Rightarrow> Inl (Error ''FAL_KEY environment variable not set'')
      | Some falKey \<Rightarrow>
          if falKey = [] then Inl (Error ''FAL_KEY environment variable not set'')
          else Inr ())"

definition new_GameState :: "string option \<Rightarrow> exn + GameState" where
  "new_GameState env =
     (case configureFalClient env of
        Inl e \<Rightarrow> Inl e
      | Inr u \<Rightarrow> Inr \<lparr>currentScene = JNull, history = []\<rparr>)"

text \<open>The guard \<^verbatim>\<open>r && r.data && r.data.output\<close> and the value it protects.\<close>

definition data_output :: "jsval \<Rightarrow> jsval option" where
  "data_output r =
     (if truthy r \<and> truthy (field r ''data'') \<and> truthy (field (field r ''data'') ''output'')
      then Some (field (field r ''data'') ''output'')
      else None)"

text \<open>\<^verbatim>\<open>{...v}\<close>: the own enumerable properties of \<open>v\<close>; none for null and undefined.\<close>

fun spread :: "jsval \<Rightarrow> jsval" where
  "spread (JObj kvs) = JObj kvs"
| "spread (JArr xs) = JObj (zip (map show_nat [0..<length xs]) xs)"
| "spread (JStr s) = JObj (zip (map show_nat [0..<length s]) (map (\<lambda>c. JStr [c]) s))"
| "spread v = JObj []"

text \<open>\<^verbatim>\<open>v[i]\<close> for a number \<open>i\<close> and a value \<open>v\<close> that is neither null nor undefined.\<close>

fun element :: "jsval \<Rightarrow> jsnum \<Rightarrow> jsval" where
  "element (JArr xs) (Integer i) =
     (if 0 \<le> i \<and> i < int (length xs) then xs ! nat i else JUndefined)"
| "element (JStr s) (Integer i) =
     (if 0 \<le> i \<and> i < int (length s) then JStr [s ! nat i] else JUndefined)"
| "element (JObj kvs) n = field (JObj kvs) (show_num n)"
| "element v n = JUndefined"

text \<open>\<^verbatim>\<open>a % b\<close>: the remainder has the sign of the dividend.\<close>

fun js_rem :: "jsnum \<Rightarrow> int \<Rightarrow> jsnum" where
  "js_rem (Integer a) b = (if b = 0 then NaN else Integer (sgn a * (\<bar>a\<bar> mod \<bar>b\<bar>)))"
| "js_rem NaN b = NaN"

definition storyPrompt :: "jsval \<Rightarrow> jsval \<Rightarrow> string" where
  "storyPrompt context userChoice =
     NL @ ''      You are narrating an interactive story game. '' @ NL
     @ ''      Current story context: '' @ toString_js context @ NL
     @ ''      User just chose: '' @ toString_js userChoice @ NL
     @ ''      Continue the story with 2-3 paragraphs based on this choice.'' @ NL
     @ ''    ''"

definition generateStoryText ::
  "string option \<Rightarrow> jsval \<Rightarrow> jsval \<Rightarrow> outcome \<Rightarrow> (exn + jsval) \<times> request list" where
  "generateStoryText env context userChoice out =
     (case configureFalClient env of
        Inl e \<Rightarrow> (Inl e, [])
      | Inr u \<Rightarrow>
          (let prompt = storyPrompt context userChoice in
           case out of
             Inr result \<Rightarrow> (Inr result, [(''fal-ai/any-llm'', prompt)])
           | Inl error \<Rightarrow>
               (Inr (JObj [(''data'', JObj [(''output'',
                        JStr ''The adventure continues... (Error generating story text)'')]),
                      (''error'', JStr (message error))]),
                [(''fal-ai/any-llm'', prompt)])))"

definition imagePrompt :: "jsval \<Rightarrow> string" where
  "imagePrompt sceneDescription =
     NL @ ''      Scene from interactive story game: '' @ toString_js sceneDescription @ NL
     @ ''      Detailed, dramatic lighting, cinematic composition, high quality'' @ NL
     @ ''    ''"

definition generateStoryImage ::
  "string option \<Rightarrow> jsval \<Rightarrow> outcome \<Rightarrow> (exn + jsval) \<times> request list" where
  "generateStoryImage env sceneDescription out =
     (case configureFalClient env of
        Inl e \<Rightarrow> (Inl e, [])
      | Inr u \<Rightarrow>
          (let failed = (\<lambda>error. JObj [(''images'', JArr []), (''error'', JStr (message error))]) in
           (case out of
              Inr result \<Rightarrow>
                (case get result ''data'' of
                   Inr data \<Rightarrow> Inr data
                 | Inl error \<Rightarrow> Inr (failed error))
            | Inl error \<Rightarrow> Inr (failed error),
            [(''fal-ai/flux-pro'', imagePrompt sceneDescription)])))"

definition choicePrompt :: "string \<Rightarrow> string" where
  "choicePrompt sceneText =
     NL @ ''Based on this scene in our story:'' @ NL
     @ ''  '' @ [dq] @ sceneText @ [dq] @ NL
     @ ''  Generate 3 interesting and distinct choices for what the player might do next.'' @ NL
     @ ''  Format your response EXACTLY as following:'' @ NL
     @ ''    ['' @ NL
     @ ''        '' @ [dq] @ ''Choice 1'' @ [dq] @ '','' @ NL
     @ ''        '' @ [dq] @ ''Choice 2'' @ [dq] @ '','' @ NL
     @ ''        '' @ [dq] @ ''Choice 3'' @ [dq] @ NL
     @ ''    ]'' @ NL
     @ ''  Do not include any explanation or additional text outside the code block list of choices above also never give like json.'' @ NL"

text \<open>
  The body of the \<^verbatim>\<open>try\<close> of \<^verbatim>\<open>generateChoices\<close> after the provider has answered with
  \<open>result\<close>. It logs \<^verbatim>\<open>JSON.stringify(result).substring(0, 200)\<close> first, then reads
  \<^verbatim>\<open>result.data\<close>.
\<close>

definition generateChoices_try :: "jsval \<Rightarrow> exn + jsval" where
  "generateChoices_try result =
     (let defaultChoices = strings DEFAULT_CHOICES in
      if result = JUndefined then
        Inl (TypeError ''Cannot read properties of undefined, reading substring'')
      else
        (case get result ''data'' of
           Inl e \<Rightarrow> Inl e
         | Inr data \<Rightarrow>
           (case data of
              JArr ds \<Rightarrow> Inr (if 0 < length ds then JArr ds else defaultChoices)
            | _ \<Rightarrow>
              if \<not> truthy data \<or> \<not> typeof_object data then Inr defaultChoices
              else if truthy (field data ''output'') then
                (case field data ''output'' of
                   JStr output \<Rightarrow>
                     (case match_quoted_g output of
                        [] \<Rightarrow> Inr defaultChoices
                      | m # ms \<Rightarrow>
                          (let cleanedChoices = map strip_quotes (m # ms) in
                           Inr (if 0 < length cleanedChoices then strings cleanedChoices
                                else defaultChoices)))
                 | _ \<Rightarrow> Inl (TypeError ''output.match is not a function''))
              else Inr defaultChoices)))"

definition generateChoices ::
  "string option \<Rightarrow> jsval \<Rightarrow> outcome \<Rightarrow> (exn + jsval) \<times> request list" where
  "generateChoices env sceneText out =
     (case configureFalClient env of
        Inl e \<Rightarrow> (Inl e, [])
      | Inr u \<Rightarrow>
          (let defaultChoices = strings DEFAULT_CHOICES in
           case sceneText of
             JStr text \<Rightarrow>
               (case out of
                  Inl error \<Rightarrow> Inr defaultChoices
                | Inr result \<Rightarrow>
                    (case generateChoices_try result of
                       Inr v \<Rightarrow> Inr v
                     | Inl error \<Rightarrow> Inr defaultChoices),
                [(''fal-ai/any-llm'', choicePrompt text)])
           | _ \<Rightarrow> (Inr defaultChoices, [])))"

text \<open>
  The image description of \<^verbatim>\<open>makeChoice\<close>: the selected choice, and when the text result
  has an output, \<^verbatim>\<open>" - " + textResult.data.output.substring(0, 100)\<close> appended to it.
  \<^verbatim>\<open>substring\<close> is a function of strings only.
\<close>

definition imageDescription :: "jsval \<Rightarrow> jsval \<Rightarrow> exn + jsval" where
  "imageDescription selectedChoice textResult =
     (case data_output textResult of
        None \<Rightarrow> Inr selectedChoice
      | Some (JStr output) \<Rightarrow> Inr (JStr (toString_js selectedChoice @ '' - '' @ take 100 output))
      | Some v \<Rightarrow> Inl (TypeError ''textResult.data.output.substring is not a function''))"

definition storyText_of :: "jsval \<Rightarrow> jsval" where
  "storyText_of textResult =
     (case data_output textResult of Some output \<Rightarrow> output | None \<Rightarrow> JStr [])"

definition initialContext :: string where
  "initialContext = ''You find yourself in a mysterious forest at dusk. The trees tower above you, their branches swaying gently in the breeze.''"

definition startNewGame ::
  "string option \<Rightarrow> GameState \<Rightarrow> outcome \<Rightarrow> outcome \<Rightarrow> outcome
   \<Rightarrow> (exn + jsval) \<times> GameState \<times> request list" where
  "startNewGame env this textOut imageOut choicesOut =
     (case configureFalClient env of
        Inl e \<Rightarrow> (Inl e, this, [])
      | Inr u \<Rightarrow>
        (case generateStoryText env (JStr initialContext) (JStr ''Game start'') textOut of
           (Inl e, r1) \<Rightarrow> (Inl e, this, r1)
         | (Inr textResult, r1) \<Rightarrow>
           (case generateStoryImage env (JStr initialContext) imageOut of
              (Inl e, r2) \<Rightarrow> (Inl e, this, r1 @ r2)
            | (Inr imageResult, r2) \<Rightarrow>
              (let storyText = storyText_of textResult in
               case generateChoices env storyText choicesOut of
                 (Inl e, r3) \<Rightarrow> (Inl e, this, r1 @ r2 @ r3)
               | (Inr choicesResult, r3) \<Rightarrow>
                 (let scene = JObj [(''text'', textResult), (''image'', imageResult),
                                    (''choices'', choicesResult)]
                  in (Inr scene, this\<lparr>currentScene := scene\<rparr>, r1 @ r2 @ r3))))))"

text \<open>
  The choice that \<^verbatim>\<open>makeChoice\<close> selects: the entry of the scene's choices when they are
  an array and the entry is truthy, and \<^verbatim>\<open>DEFAULT_CHOICES[choiceIndex % 3]\<close> otherwise.
\<close>

definition selectChoice :: "jsval \<Rightarrow> jsnum \<Rightarrow> jsval" where
  "selectChoice choices choiceIndex =
     (if isArray choices \<and> truthy (element choices choiceIndex) then element choices choiceIndex
      else element (strings DEFAULT_CHOICES) (js_rem choiceIndex (int (length DEFAULT_CHOICES))))"

definition makeChoice ::
  "string option \<Rightarrow> GameState \<Rightarrow> jsnum \<Rightarrow> outcome \<Rightarrow> outcome \<Rightarrow> outcome
   \<Rightarrow> (exn + jsval) \<times> GameState \<times> request list" where
  "makeChoice env this0 choiceIndex textOut imageOut choicesOut =
     (case configureFalClient env of
        Inl e \<Rightarrow> (Inl e, this0, [])
      | Inr u \<Rightarrow>
        (let this = this0\<lparr>history := history this0 @ [spread (currentScene this0)]\<rparr> in
         case get (currentScene this) ''choices'' of
           Inl e \<Rightarrow> (Inl e, this, [])
         | Inr choices \<Rightarrow>
           (let selectedChoice = selectChoice choices choiceIndex;
                currentContext = storyText_of (field (currentScene this) ''text'')
            in
            case generateStoryText env currentContext selectedChoice textOut of
              (Inl e, r1) \<Rightarrow> (Inl e, this, r1)
            | (Inr textResult, r1) \<Rightarrow>
              (case imageDescription selectedChoice textResult of
                 Inl e \<Rightarrow> (Inl e, this, r1)
               | Inr description \<Rightarrow>
                 (case generateStoryImage env description imageOut of
                    (Inl e, r2) \<Rightarrow> (Inl e, this, r1 @ r2)
                  | (Inr imageResult, r2) \<Rightarrow>
                    (let storyText = storyText_of textResult in
                     case generateChoices env storyText choicesOut of
                       (Inl e, r3) \<Rightarrow> (Inl e, this, r1 @ r2 @ r3)
                     | (Inr choicesResult, r3) \<Rightarrow>
                       (let scene = JObj [(''text'', textResult), (''image'', imageResult),
                                          (''choices'', choicesResult)]
                        in (Inr scene, this\<lparr>currentScene := scene\<rparr>, r1 @ r2 @ r3))))))))"

section \<open>The server of the main variant: the two routes\<close>

text \<open>
  \<^verbatim>\<open>generateSpeech(text)\<close>. Everything is inside one \<^verbatim>\<open>try\<close> whose \<^verbatim>\<open>catch\<close> returns null:
  \<^verbatim>\<open>text.substring\<close> of a text that is not a string, the rejected call, \<^verbatim>\<open>result.requestId\<close>
  of a null result and \<^verbatim>\<open>result.data.audio.url\<close> of a missing \<^verbatim>\<open>audio\<close>.
\<close>

definition generateSpeech :: "jsval \<Rightarrow> outcome \<Rightarrow> jsval \<times> request list" where
  "generateSpeech text out =
     (case text of
        JStr t \<Rightarrow>
          (let formattedText =
                 (if \<not> str_includes t ''[S1]'' \<and> \<not> str_includes t ''[S2]'' then ''[S1] '' @ t else t)
           in
           (case out of
              Inl error \<Rightarrow> JNull
            | Inr result \<Rightarrow>
                if nullish result then JNull
                else if truthy (field result ''data'') then
                  (case get (field (field result ''data'') ''audio'') ''url'' of
                     Inl error \<Rightarrow> JNull
                   | Inr url \<Rightarrow> if truthy url then url else JNull)
                else JNull,
            [(''fal-ai/dia-tts'', formattedText)]))
      | _ \<Rightarrow> (JNull, []))"

text \<open>
  \<^verbatim>\<open>v > 0\<close>. A value that is not a number is converted first; for a string the
  conversion reads a numeric literal, and \<open>pos s\<close> says whether the number read from \<open>s\<close>
  is greater than zero. An array is converted through its string, a plain object to NaN.
\<close>

fun greater_zero :: "(string \<Rightarrow> bool) \<Rightarrow> jsval \<Rightarrow> bool" where
  "greater_zero pos (JNum (Integer i)) = (0 < i)"
| "greater_zero pos (JNum NaN) = False"
| "greater_zero pos JUndefined = False"
| "greater_zero pos JNull = False"
| "greater_zero pos (JBool b) = b"
| "greater_zero pos (JStr s) = pos s"
| "greater_zero pos (JArr xs) = pos (toString_js (JArr xs))"
| "greater_zero pos (JObj kvs) = False"

definition imageUrl_of :: "(string \<Rightarrow> bool) \<Rightarrow> jsval \<Rightarrow> exn + jsval" where
  "imageUrl_of pos scene =
     (let image = field scene ''image'' in
      if truthy image \<and> truthy (field image ''images'')
         \<and> greater_zero pos (field (field image ''images'') ''length'')
      then get (element (field image ''images'') (Integer 0)) ''url''
      else Inr JNull)"

record response =
  status :: nat
  body :: jsval

text \<open>
  What both routes do with the scene they got: the story text, the speech, the image
  address, the choices, and the JSON answer. An exception goes to the \<^verbatim>\<open>catch\<close> of the route.
\<close>

definition sceneResponse ::
  "(string \<Rightarrow> bool) \<Rightarrow> jsval \<Rightarrow> jsval \<Rightarrow> outcome \<Rightarrow> (exn + response) \<times> request list" where
  "sceneResponse pos sessionId scene speechOut =
     (let storyText = storyText_of (field scene ''text'');
          speech = generateSpeech storyText speechOut
      in
      (case imageUrl_of pos scene of
         Inl e \<Rightarrow> Inl e
       | Inr imageUrl \<Rightarrow>
           Inr \<lparr>status = 200,
                body = JObj [(''sessionId'', sessionId), (''text'', storyText),
                             (''imageUrl'', imageUrl), (''audioUrl'', fst speech),
                             (''choices'', extractChoices (field scene ''choices''))]\<rparr>,
       snd speech))"

text \<open>
  \<^verbatim>\<open>POST /api/game/start\<close>. \<open>now\<close> is the reading of \<^verbatim>\<open>Date.now()\<close>, in milliseconds. The
  session map holds the engines by identifier.
\<close>

definition start_route ::
  "(string \<Rightarrow> bool) \<Rightarrow> string option \<Rightarrow> (string \<rightharpoonup> GameState) \<Rightarrow> nat
   \<Rightarrow> outcome \<Rightarrow> outcome \<Rightarrow> outcome \<Rightarrow> outcome
   \<Rightarrow> response \<times> (string \<rightharpoonup> GameState) \<times> request list" where
  "start_route pos env gameSessions now textOut imageOut choicesOut speechOut =
     (let sessionId = show_nat now;
          failed = \<lparr>status = 500, body = JObj [(''error'', JStr ''Failed to start game'')]\<rparr>
      in
      case new_GameState env of
        Inl e \<Rightarrow> (failed, gameSessions, [])
      | Inr game0 \<Rightarrow>
        (case startNewGame env game0 textOut imageOut choicesOut of
           (Inl e, game, r) \<Rightarrow> (failed, gameSessions, r)
         | (Inr initialScene, game, r) \<Rightarrow>
           (let sessions = gameSessions(sessionId \<mapsto> game) in
            case sceneResponse pos (JStr sessionId) initialScene speechOut of
              (Inl e, r2) \<Rightarrow> (failed, sessions, r @ r2)
            | (Inr answer, r2) \<Rightarrow> (answer, sessions, r @ r2))))"

text \<open>\<^verbatim>\<open>gameSessions.get(sessionId)\<close>: the keys of the map are strings.\<close>

definition session_get :: "(string \<rightharpoonup> 'g) \<Rightarrow> jsval \<Rightarrow> (string \<times> 'g) option" where
  "session_get gameSessions sessionId =
     (case sessionId of
        JStr k \<Rightarrow> (case gameSessions k of Some game \<Rightarrow> Some (k, game) | None \<Rightarrow> None)
      | _ \<Rightarrow> None)"

text \<open>
  \<^verbatim>\<open>POST /api/game/choice\<close> with the request body \<open>reqBody\<close>. The engine found in the map
  is the object that \<^verbatim>\<open>makeChoice\<close> changes, so the map holds the changed engine afterwards.
\<close>

definition choice_route ::
  "(string \<Rightarrow> bool) \<Rightarrow> string option \<Rightarrow> (string \<rightharpoonup> GameState) \<Rightarrow> jsval
   \<Rightarrow> outcome \<Rightarrow> outcome \<Rightarrow> outcome \<Rightarrow> outcome
   \<Rightarrow> response \<times> (string \<rightharpoonup> GameState) \<times> request list" where
  "choice_route pos env gameSessions reqBody textOut imageOut choicesOut speechOut =
     (let failed = \<lparr>status = 500, body = JObj [(''error'', JStr ''Failed to process choice'')]\<rparr>
      in
      case get reqBody ''sessionId'' of
        Inl e \<Rightarrow> (failed, gameSessions, [])
      | Inr sessionId \<Rightarrow>
        (let choiceIndex = field reqBody ''choiceIndex'' in
         case session_get gameSessions sessionId of
           None \<Rightarrow>
             (\<lparr>status = 404, body = JObj [(''error'', JStr ''Game session not found'')]\<rparr>,
              gameSessions, [])
         | Some (k, game0) \<Rightarrow>
           (case makeChoice env game0 (parseInt choiceIndex) textOut imageOut choicesOut of
              (Inl e, game, r) \<Rightarrow> (failed, gameSessions(k \<mapsto> game), r)
            | (Inr nextScene, game, r) \<Rightarrow>
              (case sceneResponse pos sessionId nextScene speechOut of
                 (Inl e, r2) \<Rightarrow> (failed, gameSessions(k \<mapsto> game), r @ r2)
               | (Inr answer, r2) \<Rightarrow> (answer, gameSessions(k \<mapsto> game), r @ r2)))))"

section \<open>The game state of the copy variant\<close>

definition storyPrompt_copy :: "jsval \<Rightarrow> jsval \<Rightarrow> string" where
  "storyPrompt_copy context userChoice =
     NL @ ''    You are narrating an interactive story game. '' @ NL
     @ ''    Current story context: '' @ toString_js context @ NL
     @ ''    User just chose: '' @ toString_js userChoice @ NL
     @ ''    Continue the story with 2-3 paragraphs based on this choice.'' @ NL
     @ ''  ''"

text \<open>
  \<^verbatim>\<open>generateStoryText\<close> of the copy variant. \<^verbatim>\<open>logResponse("Text Data", result.data)\<close> reads
  \<^verbatim>\<open>result.data\<close> inside the \<^verbatim>\<open>try\<close>. The text is taken from \<^verbatim>\<open>data\<close>: a string as it is; of
  an object the first truthy one of \<^verbatim>\<open>text\<close>, \<^verbatim>\<open>content\<close>, \<^verbatim>\<open>response\<close>, \<^verbatim>\<open>message\<close>, and the
  JSON of the object when there is none; any other value through \<^verbatim>\<open>String\<close>.
\<close>

definition generateStoryText_copy :: "jsval \<Rightarrow> jsval \<Rightarrow> outcome \<Rightarrow> jsval \<times> request list" where
  "generateStoryText_copy context userChoice out =
     (let failed = (\<lambda>error. JObj [(''success'', JBool False),
                      (''text'', JStr ''Failed to generate story text. The journey continues...''),
                      (''error'', JStr (message error))])
      in
      (case out of
         Inl error \<Rightarrow> failed error
       | Inr result \<Rightarrow>
         (case get result ''data'' of
            Inl error \<Rightarrow> failed error
          | Inr data \<Rightarrow>
            (let storyText =
               (if truthy result \<and> truthy data then
                  (case data of
                     JStr d \<Rightarrow> JStr d
                   | _ \<Rightarrow>
                     if typeof_object data then
                       (if truthy (field data ''text'') then field data ''text''
                        else if truthy (field data ''content'') then field data ''content''
                        else if truthy (field data ''response'') then field data ''response''
                        else if truthy (field data ''message'') then field data ''message''
                        else (case stringify data of Some t \<Rightarrow> JStr t | None \<Rightarrow> JUndefined))
                     else JStr (toString_js data))
                else JStr [])
             in JObj [(''success'', JBool True), (''text'', storyText),
                      (''requestId'', field result ''requestId''), (''rawResponse'', result)])),
       [(''fal-ai/any-llm'', storyPrompt_copy context userChoice)]))"

definition imagePrompt_copy :: "jsval \<Rightarrow> string" where
  "imagePrompt_copy sceneDescription =
     NL @ ''    Scene from interactive story game: '' @ toString_js sceneDescription @ NL
     @ ''    Detailed, dramatic lighting, cinematic composition, high quality'' @ NL
     @ ''  ''"

definition generateStoryImage_copy :: "jsval \<Rightarrow> outcome \<Rightarrow> jsval \<times> request list" where
  "generateStoryImage_copy sceneDescription out =
     (let failed = (\<lambda>error. JObj [(''success'', JBool False), (''error'', JStr (message error))])
      in
      (case out of
         Inl error \<Rightarrow> failed error
       | Inr result \<Rightarrow>
         (case get result ''data'' of
            Inl error \<Rightarrow> failed error
          | Inr data \<Rightarrow>
              JObj [(''success'', JBool True), (''imageData'', data),
                    (''requestId'', field result ''requestId'')]),
       [(''fal-ai/flux/schnell'', imagePrompt_copy sceneDescription)]))"

definition choicePrompt_copy :: "string \<Rightarrow> string" where
  "choicePrompt_copy sceneText =
     NL @ ''      Based on this scene in our story:'' @ NL
     @ ''      '' @ [dq] @ sceneText @ [dq] @ NL
     @ ''      '' @ NL
     @ ''      Generate 3 interesting and distinct choices for what the player might do next.'' @ NL
     @ ''      Return only the choices as a JSON array of strings.'' @ NL
     @ ''    ''"

text \<open>
  \<^verbatim>\<open>data.match(/\[.*\]/s)\<close>: with the flag \<^verbatim>\<open>s\<close> the greedy \<^verbatim>\<open>.*\<close> runs over line breaks,
  so the match goes from the first opening bracket to the last closing bracket after it.
\<close>

definition bracket_span :: "string \<Rightarrow> string option" where
  "bracket_span s =
     (case dropWhile (\<lambda>c. c \<noteq> CHR ''['') s of
        [] \<Rightarrow> None
      | b # rest \<Rightarrow>
          if CHR '']'' \<in> set rest
          then Some (b # rev (dropWhile (\<lambda>c. c \<noteq> CHR '']'') (rev rest)))
          else None)"

text \<open>
  \<^verbatim>\<open>JSON.parse(s)\<close> followed by the test \<^verbatim>\<open>Array.isArray(p) && p.length > 0\<close>: \<open>Inl\<close> when
  the parse throws, \<open>Inr (Some p)\<close> when the test holds and \<open>p\<close> is returned, \<open>Inr None\<close>
  when control goes on.
\<close>

definition parsed_array :: "(string \<Rightarrow> jsval option) \<Rightarrow> string \<Rightarrow> exn + jsval option" where
  "parsed_array parse s =
     (case parse s of
        None \<Rightarrow> Inl (SyntaxError ''Unexpected token in JSON'')
      | Some (JArr ps) \<Rightarrow> Inr (if 0 < length ps then Some (JArr ps) else None)
      | Some v \<Rightarrow> Inr None)"

text \<open>The inner \<^verbatim>\<open>try\<close> of \<^verbatim>\<open>generateChoices\<close> of the copy variant, on a truthy \<^verbatim>\<open>result.data\<close>.\<close>

definition parse_choices_try :: "(string \<Rightarrow> jsval option) \<Rightarrow> jsval \<Rightarrow> exn + jsval option" where
  "parse_choices_try parse data =
     (case data of
        JArr ds \<Rightarrow> Inr (Some (if 0 < length ds then JArr ds else strings DEFAULT_CHOICES))
      | JStr d \<Rightarrow>
          (case bracket_span d of
             Some jsonMatch \<Rightarrow>
               (case parsed_array parse jsonMatch of
                  Inl e \<Rightarrow> Inl e
                | Inr (Some parsedData) \<Rightarrow> Inr (Some parsedData)
                | Inr None \<Rightarrow> parsed_array parse d)
           | None \<Rightarrow> parsed_array parse d)
      | _ \<Rightarrow> Inr None)"

text \<open>
  The \<^verbatim>\<open>catch\<close> of that \<^verbatim>\<open>try\<close>: the lines of a string \<^verbatim>\<open>data\<close> that are not blank, hold no
  code fence and do not mention options or choices; \<^verbatim>\<open>line.replace(/^[0-9\-\*\.\)]+\s*/, '')\<close>
  removes a leading list marker.
\<close>

definition choice_lines :: "string \<Rightarrow> string list" where
  "choice_lines d =
     filter (\<lambda>line. 0 < length (trim line)
                   \<and> \<not> str_includes line ''```''
                   \<and> \<not> str_includes (toLowerCase line) ''options''
                   \<and> \<not> str_includes (toLowerCase line) ''choices'')
            (split_lines d)"

definition is_list_marker :: "char \<Rightarrow> bool" where
  "is_list_marker c = (is_digit c \<or> c \<in> {CHR ''-'', CHR ''*'', CHR ''.'', CHR '')''})"

definition strip_list_marker :: "string \<Rightarrow> string" where
  "strip_list_marker line =
     (if takeWhile is_list_marker line = [] then line
      else dropWhile is_space (dropWhile is_list_marker line))"

definition generateChoices_copy ::
  "(string \<Rightarrow> jsval option) \<Rightarrow> jsval \<Rightarrow> outcome \<Rightarrow> jsval \<times> request list" where
  "generateChoices_copy parse sceneText out =
     (let defaultChoices = strings DEFAULT_CHOICES in
      case sceneText of
        JStr text \<Rightarrow>
          (case out of
             Inl error \<Rightarrow> defaultChoices
           | Inr result \<Rightarrow>
               if truthy result \<and> truthy (field result ''data'') then
                 (let data = field result ''data'' in
                  case parse_choices_try parse data of
                    Inr (Some v) \<Rightarrow> v
                  | Inr None \<Rightarrow> defaultChoices
                  | Inl e \<Rightarrow>
                      (case data of
                         JStr d \<Rightarrow>
                           (let lines = choice_lines d in
                            if 3 \<le> length lines
                            then strings (map strip_list_marker (take 3 lines))
                            else defaultChoices)
                       | _ \<Rightarrow> defaultChoices))
               else defaultChoices,
           [(''fal-ai/any-llm'', choicePrompt_copy text)])
      | _ \<Rightarrow> (defaultChoices, []))"

record GameState_copy = GameState +
  choices :: "jsval list"

definition new_GameState_copy :: GameState_copy where
  "new_GameState_copy = \<lparr>currentScene = JNull, history = [], choices = []\<rparr>"

definition initialChoices :: "string list" where
  "initialChoices =
     [''Follow the faint glowing light in the distance'',
      ''Set up camp and wait until morning'',
      ''Climb a tree to get a better view'']"

definition startNewGame_copy ::
  "GameState_copy \<Rightarrow> outcome \<Rightarrow> outcome \<Rightarrow> jsval \<times> GameState_copy \<times> request list" where
  "startNewGame_copy this textOut imageOut =
     (let textResult = generateStoryText_copy (JStr initialContext) (JStr ''Game start'') textOut;
          imageResult = generateStoryImage_copy (JStr initialContext) imageOut;
          scene = JObj [
            (''text'', if truthy (field (fst textResult) ''success'') then field (fst textResult) ''text''
                       else JStr ''As you stand in the mysterious forest, you feel a sense of adventure ahead. The path branches in several directions, each offering its own mysteries to uncover.''),
            (''image'', if truthy (field (fst imageResult) ''success'')
                        then field (fst imageResult) ''imageData'' else JNull),
            (''choices'', strings initialChoices)]
      in (scene, this\<lparr>currentScene := scene\<rparr>, snd textResult @ snd imageResult))"

text \<open>\<^verbatim>\<open>v[i]\<close> without a guard: reading an entry of null or undefined throws.\<close>

definition get_element :: "jsval \<Rightarrow> jsnum \<Rightarrow> exn + jsval" where
  "get_element v i =
     (if nullish v then Inl (TypeError (''Cannot read properties of null or undefined, reading '' @ show_num i))
      else Inr (element v i))"

definition makeChoice_copy ::
  "(string \<Rightarrow> jsval option) \<Rightarrow> GameState_copy \<Rightarrow> jsnum \<Rightarrow> outcome \<Rightarrow> outcome \<Rightarrow> outcome
   \<Rightarrow> (exn + jsval) \<times> GameState_copy \<times> request list" where
  "makeChoice_copy parse this0 choiceIndex textOut imageOut choicesOut =
     (let this = this0\<lparr>history := history this0 @ [spread (currentScene this0)]\<rparr> in
      case get (currentScene this) ''choices'' of
        Inl e \<Rightarrow> (Inl e, this, [])
      | Inr sceneChoices \<Rightarrow>
        (case get_element sceneChoices choiceIndex of
           Inl e \<Rightarrow> (Inl e, this, [])
         | Inr selectedChoice \<Rightarrow>
           if \<not> truthy selectedChoice then (Inl (Error ''Invalid choice index''), this, [])
           else
             (let currentContext = field (currentScene this) ''text'';
                  textResult = generateStoryText_copy currentContext selectedChoice textOut;
                  description =
                    (case field (fst textResult) ''text'' of
                       JStr t \<Rightarrow>
                         if truthy (field (fst textResult) ''success'')
                         then JStr (toString_js selectedChoice @ '' - '' @ take 100 t)
                         else selectedChoice
                     | _ \<Rightarrow> selectedChoice);
                  imageResult = generateStoryImage_copy description imageOut;
                  newChoices = generateChoices_copy parse (field (fst textResult) ''text'') choicesOut;
                  scene = JObj [
                    (''text'', if truthy (field (fst textResult) ''success'')
                               then field (fst textResult) ''text''
                               else JStr ''The adventure continues as you make your choice. What will you do next?''),
                    (''image'', if truthy (field (fst imageResult) ''success'')
                                then field (fst imageResult) ''imageData'' else JNull),
                    (''choices'', fst newChoices)]
              in (Inr scene, this\<lparr>currentScene := scene\<rparr>,
                  snd textResult @ snd imageResult @ snd newChoices))))"

section \<open>The server of the copy variant: the two routes\<close>

definition imageUrl_copy :: "jsval \<Rightarrow> exn + jsval" where
  "imageUrl_copy scene =
     (let image = field scene ''image'' in
      if truthy image \<and> truthy (field image ''images'') then
        (case field image ''images'' of
           JArr images \<Rightarrow>
             if 0 < length images then get (element (JArr images) (Integer 0)) ''url''
             else Inr JNull
         | _ \<Rightarrow> Inr JNull)
      else Inr JNull)"

definition sceneResponse_copy ::
  "(string \<Rightarrow> jsval option) \<Rightarrow> jsval \<Rightarrow> jsval \<Rightarrow> exn + response" where
  "sceneResponse_copy parse sessionId scene =
     (case imageUrl_copy scene of
        Inl e \<Rightarrow> Inl e
      | Inr imageUrl \<Rightarrow>
          Inr \<lparr>status = 200,
               body = JObj [(''sessionId'', sessionId),
                            (''text'', extractText parse (field scene ''text'')),
                            (''imageUrl'', imageUrl),
                            (''choices'', extractChoices_copy parse (field scene ''choices''))]\<rparr>)"

definition start_route_copy ::
  "(string \<Rightarrow> jsval option) \<Rightarrow> (string \<rightharpoonup> GameState_copy) \<Rightarrow> nat \<Rightarrow> outcome \<Rightarrow> outcome
   \<Rightarrow> response \<times> (string \<rightharpoonup> GameState_copy) \<times> request list" where
  "start_route_copy parse gameSessions now textOut imageOut =
     (let sessionId = show_nat now;
          failed = \<lparr>status = 500, body = JObj [(''error'', JStr ''Failed to start game'')]\<rparr>
      in
      case startNewGame_copy new_GameState_copy textOut imageOut of
        (initialScene, game, r) \<Rightarrow>
          (let sessions = gameSessions(sessionId \<mapsto> game) in
           case sceneResponse_copy parse (JStr sessionId) initialScene of
             Inl e \<Rightarrow> (failed, sessions, r)
           | Inr answer \<Rightarrow> (answer, sessions, r)))"

definition choice_route_copy ::
  "(string \<Rightarrow> jsval option) \<Rightarrow> (string \<rightharpoonup> GameState_copy) \<Rightarrow> jsval
   \<Rightarrow> outcome \<Rightarrow> outcome \<Rightarrow> outcome
   \<Rightarrow> response \<times> (string \<rightharpoonup> GameState_copy) \<times> request list" where
  "choice_route_copy parse gameSessions reqBody textOut imageOut choicesOut =
     (let failed = \<lparr>status = 500, body = JObj [(''error'', JStr ''Failed to process choice'')]\<rparr>
      in
      case get reqBody ''sessionId'' of
        Inl e \<Rightarrow> (failed, gameSessions, [])
      | Inr sessionId \<Rightarrow>
        (let choiceIndex = field reqBody ''choiceIndex'' in
         case session_get gameSessions sessionId of
           None \<Rightarrow>
             (\<lparr>status = 404, body = JObj [(''error'', JStr ''Game session not found'')]\<rparr>,
              gameSessions, [])
         | Some (k, game0) \<Rightarrow>
           (case makeChoice_copy parse game0 (parseInt choiceIndex) textOut imageOut choicesOut of
              (Inl e, game, r) \<Rightarrow> (failed, gameSessions(k \<mapsto> game), r)
            | (Inr nextScene, game, r) \<Rightarrow>
              (case sceneResponse_copy parse sessionId nextScene of
                 Inl e \<Rightarrow> (failed, gameSessions(k \<mapsto> game), r)
               | Inr answer \<Rightarrow> (answer, gameSessions(k \<mapsto> game), r)))))"

section \<open>Notions of the specification\<close>

text \<open>A non-empty string; an array of exactly three non-empty strings.\<close>

fun nonempty_string :: "jsval \<Rightarrow> bool" where
  "nonempty_string (JStr s) = (s \<noteq> [])"
| "nonempty_string v = False"




section \<open>Basic facts\<close>

lemma get_not_nullish: "\<not> nullish v \<Longrightarrow> get v k = Inr (field v k)"
  by (simp add: get_def)

lemma session_get_unknown:
  "(\<And>k. sid = JStr k \<Longrightarrow> m k = None) \<Longrightarrow> session_get m sid = None"
  by (cases sid) (simp_all add: session_get_def)

section \<open>Unknown sessions\<close>

text \<open>
  C8. A request to \<^verbatim>\<open>POST /api/game/choice\<close> whose body carries a \<^verbatim>\<open>sessionId\<close> that is not a
  key of the session map is answered with status 404 and the body
  \<^verbatim>\<open>{error: "Game session not found"}\<close>, in both servers; the session map is left as it
  was and no request goes to the provider, so no engine has run. The body is what
  \<^verbatim>\<open>express.json()\<close> hands over, a value that is neither null nor undefined.
\<close>

theorem choice_route_unknown_session:
  assumes body: "\<not> nullish reqBody"
    and unknown: "\<And>k. field reqBody ''sessionId'' = JStr k \<Longrightarrow> gameSessions k = None"
    and unknown': "\<And>k. field reqBody ''sessionId'' = JStr k \<Longrightarrow> gameSessions' k = None"
  shows "choice_route pos env gameSessions reqBody textOut imageOut choicesOut speechOut =
           (\<lparr>status = 404, body = JObj [(''error'', JStr ''Game session not found'')]\<rparr>,
            gameSessions, [])
       \<and> choice_route_copy parse gameSessions' reqBody textOut imageOut choicesOut =
           (\<lparr>status = 404, body = JObj [(''error'', JStr ''Game session not found'')]\<rparr>,
            gameSessions', [])"
proof -
  have a: "session_get gameSessions (field reqBody ''sessionId'') = None"
    using unknown by (rule session_get_unknown)
  have b: "session_get gameSessions' (field reqBody ''sessionId'') = None"
    using unknown' by (rule session_get_unknown)
  show ?thesis
    by (simp add: choice_route_def choice_route_copy_def get_not_nullish [OF body] a b)
qed

theorem choice_route_unknown_session_witness:
  "\<not> nullish (JObj [(''sessionId'', JStr ''1700000000000''), (''choiceIndex'', JNum (Integer 1))])
   \<and> (Map.empty :: string \<rightharpoonup> GameState) ''1700000000000'' = None
   \<and> choice_route (\<lambda>s. False) (Some ''key'') Map.empty
        (JObj [(''sessionId'', JStr ''1700000000000''), (''choiceIndex'', JNum (Integer 1))])
        (Inr JNull) (Inr JNull) (Inr JNull) (Inr JNull) =
       (\<lparr>status = 404, body = JObj [(''error'', JStr ''Game session not found'')]\<rparr>, Map.empty, [])
   \<and> choice_route_copy (\<lambda>s. None) Map.empty
        (JObj [(''sessionId'', JStr ''1700000000000''), (''choiceIndex'', JNum (Integer 1))])
        (Inr JNull) (Inr JNull) (Inr JNull) =
       (\<lparr>status = 404, body = JObj [(''error'', JStr ''Game session not found'')]\<rparr>, Map.empty, [])"
  using choice_route_unknown_session
    [of "JObj [(''sessionId'', JStr ''1700000000000''), (''choiceIndex'', JNum (Integer 1))]"
        Map.empty Map.empty "\<lambda>s. False" "Some ''key''" "Inr JNull" "Inr JNull" "Inr JNull" "Inr JNull"
        "\<lambda>s. None"]
  by (simp add: nullish_def)

section \<open>Choosing\<close>

lemma configure_ok: "key \<noteq> [] \<Longrightarrow> configureFalClient (Some key) = Inr ()"
  by (simp add: configureFalClient_def)

lemma generateStoryText_ok:
  "configureFalClient env = Inr () \<Longrightarrow>
   generateStoryText env c u out =
     (Inr (case out of
             Inr result \<Rightarrow> result
           | Inl error \<Rightarrow>
               JObj [(''data'', JObj [(''output'',
                        JStr ''The adventure continues... (Error generating story text)'')]),
                     (''error'', JStr (message error))]),
      [(''fal-ai/any-llm'', storyPrompt c u)])"
  by (cases out) (simp_all add: generateStoryText_def)

lemma generateStoryImage_ok:
  "configureFalClient env = Inr () \<Longrightarrow>
   \<exists>v. generateStoryImage env d out = (Inr v, [(''fal-ai/flux-pro'', imagePrompt d)])"
  by (simp add: generateStoryImage_def split: sum.splits)

lemma generateChoices_ok:
  "configureFalClient env = Inr () \<Longrightarrow> \<exists>v r. generateChoices env t out = (Inr v, r)"
  by (cases t; cases out) (simp_all add: generateChoices_def Let_def split: sum.splits)

lemma imageDescription_ok:
  assumes "data_output v = None \<or> (\<exists>s. data_output v = Some (JStr s))"
  shows "\<exists>d. imageDescription sel v = Inr d"
  using assms by (auto simp add: imageDescription_def)

text \<open>For an index that is not negative the remainder of JavaScript is \<open>mod\<close>.\<close>

lemma element_default:
  assumes "0 \<le> n"
  shows "element (strings DEFAULT_CHOICES) (js_rem (Integer n) (int (length DEFAULT_CHOICES)))
         = JStr (DEFAULT_CHOICES ! nat (n mod 3))"
proof -
  have len: "length DEFAULT_CHOICES = 3" by (simp add: DEFAULT_CHOICES_def)
  have rem: "sgn n * (\<bar>n\<bar> mod 3) = n mod 3"
    using assms by (cases "n = 0") (simp_all add: sgn_if)
  have lt: "n mod 3 < 3" and ge: "0 \<le> n mod 3" by simp_all
  then have "nat (n mod 3) < length DEFAULT_CHOICES" using len by simp
  then show ?thesis
    using ge lt by (simp add: strings_def len rem)
qed

lemma selectChoice_default:
  assumes "0 \<le> n" and "\<And>xs. cs = JArr xs \<Longrightarrow> int (length xs) \<le> n"
  shows "selectChoice cs (Integer n) = JStr (DEFAULT_CHOICES ! nat (n mod 3))"
proof (cases cs)
  case (JArr xs)
  then have "element cs (Integer n) = JUndefined" using assms(2) by auto
  then show ?thesis
    by (simp add: selectChoice_def element_default [OF assms(1)] del: js_rem.simps)
qed (simp_all add: selectChoice_def element_default [OF assms(1)] del: js_rem.simps)

text \<open>
  A run of \<^verbatim>\<open>makeChoice\<close> of the main variant that returns: the key is set, there is a
  current scene, and the output of the text result, if it has one, is a string.
\<close>

lemma makeChoice_runs:
  assumes conf: "configureFalClient env = Inr ()"
    and cur: "\<not> nullish (currentScene this)"
    and textok: "\<And>r. textOut = Inr r \<Longrightarrow>
                data_output r = None \<or> (\<exists>s. data_output r = Some (JStr s))"
  shows "\<exists>scene this' reqs.
          makeChoice env this idx textOut imageOut choicesOut =
            (Inr scene, this',
             (''fal-ai/any-llm'',
              storyPrompt (storyText_of (field (currentScene this) ''text''))
                          (selectChoice (field (currentScene this) ''choices'') idx)) # reqs)"
proof -
  let ?sel = "selectChoice (field (currentScene this) ''choices'') idx"
  let ?ctx = "storyText_of (field (currentScene this) ''text'')"
  obtain v where v: "generateStoryText env ?ctx ?sel textOut
                       = (Inr v, [(''fal-ai/any-llm'', storyPrompt ?ctx ?sel)])"
    and vdef: "v = (case textOut of
             Inr result \<Rightarrow> result
           | Inl error \<Rightarrow>
               JObj [(''data'', JObj [(''output'',
                        JStr ''The adventure continues... (Error generating story text)'')]),
                     (''error'', JStr (message error))])"
    using generateStoryText_ok [OF conf] by simp
  have "data_output v = None \<or> (\<exists>s. data_output v = Some (JStr s))"
  proof (cases textOut)
    case (Inl e)
    then show ?thesis by (simp add: vdef data_output_def)
  next
    case (Inr r)
    then show ?thesis using textok [OF Inr] by (simp add: vdef)
  qed
  then obtain d where d: "imageDescription ?sel v = Inr d"
    using imageDescription_ok by blast
  obtain iv where iv: "generateStoryImage env d imageOut = (Inr iv, [(''fal-ai/flux-pro'', imagePrompt d)])"
    using generateStoryImage_ok [OF conf] by blast
  obtain cv r3 where cv: "generateChoices env (storyText_of v) choicesOut = (Inr cv, r3)"
    using generateChoices_ok [OF conf] by blast
  have "makeChoice env this idx textOut imageOut choicesOut =
          (Inr (JObj [(''text'', v), (''image'', iv), (''choices'', cv)]),
           this\<lparr>history := history this @ [spread (currentScene this)],
                 currentScene := JObj [(''text'', v), (''image'', iv), (''choices'', cv)]\<rparr>,
           (''fal-ai/any-llm'', storyPrompt ?ctx ?sel) # (''fal-ai/flux-pro'', imagePrompt d) # r3)"
    by (simp add: makeChoice_def Let_def conf get_not_nullish [OF cur] v d iv cv)
  then show ?thesis by blast
qed





lemma makeChoice_copy_invalid:
  assumes "\<not> nullish (currentScene this)"
    and "\<not> nullish (field (currentScene this) ''choices'')"
    and "\<not> truthy (element (field (currentScene this) ''choices'') idx)"
  shows "makeChoice_copy parse this idx t i c =
     (Inl (Error ''Invalid choice index''),
      this\<lparr>history := history this @ [spread (currentScene this)]\<rparr>, [])"
  using assms by (simp add: makeChoice_copy_def Let_def get_def get_element_def)


text \<open>
  C5, as the code has it. In the main variant, with the key set and a current scene, a
  call of \<^verbatim>\<open>makeChoice\<close> with an index \<open>n\<close> that is not negative and not below the length of
  the scene's choices (or with choices that are not an array) selects
  \<^verbatim>\<open>DEFAULT_CHOICES[n mod 3]\<close>, sends the story request with that action and returns a
  scene, provided the output of the text result, if it has one, is a string (the image
  description takes \<^verbatim>\<open>substring\<close> of it). Negative indexes are left out: there the
  remainder of JavaScript is not \<open>mod\<close>. The copy variant throws instead.
\<close>

theorem makeChoice_out_of_range:
  assumes key: "env = Some key" "key \<noteq> []"
    and cur: "\<not> nullish (currentScene this)"
    and idx: "0 \<le> n"
      "\<And>xs. field (currentScene this) ''choices'' = JArr xs \<Longrightarrow> int (length xs) \<le> n"
    and textok: "\<And>r. textOut = Inr r \<Longrightarrow>
                data_output r = None \<or> (\<exists>s. data_output r = Some (JStr s))"
  shows "selectChoice (field (currentScene this) ''choices'') (Integer n)
           = JStr (DEFAULT_CHOICES ! nat (n mod 3))
     \<and> (\<exists>scene this' reqs.
          makeChoice env this (Integer n) textOut imageOut choicesOut =
            (Inr scene, this',
             (''fal-ai/any-llm'',
              storyPrompt (storyText_of (field (currentScene this) ''text''))
                          (JStr (DEFAULT_CHOICES ! nat (n mod 3)))) # reqs))"
proof -
  have conf: "configureFalClient env = Inr ()"
    using key by (simp add: configure_ok)
  have sel: "selectChoice (field (currentScene this) ''choices'') (Integer n)
               = JStr (DEFAULT_CHOICES ! nat (n mod 3))"
    using idx by (rule selectChoice_default)
  show ?thesis
    using makeChoice_runs [OF conf cur textok, of textOut "Integer n" imageOut choicesOut]
    by (simp add: sel)
qed

theorem makeChoice_out_of_range_witness:
  "selectChoice (field (currentScene \<lparr>currentScene = JObj [(''text'', JNull), (''image'', JNull),
        (''choices'', strings DEFAULT_CHOICES)], history = []\<rparr>) ''choices'') (Integer 7)
     = JStr ''Take a different path''
   \<and> (\<exists>scene this' reqs.
        makeChoice (Some ''key'')
          \<lparr>currentScene = JObj [(''text'', JNull), (''image'', JNull),
             (''choices'', strings DEFAULT_CHOICES)], history = []\<rparr>
          (Integer 7) (Inl (Error ''offline'')) (Inl (Error ''offline'')) (Inl (Error ''offline'')) =
          (Inr scene, this',
           (''fal-ai/any-llm'', storyPrompt (JStr []) (JStr ''Take a different path'')) # reqs))"
  using makeChoice_out_of_range
    [of "Some ''key''" "''key''"
        "\<lparr>currentScene = JObj [(''text'', JNull), (''image'', JNull),
             (''choices'', strings DEFAULT_CHOICES)], history = []\<rparr>"
        7 "Inl (Error ''offline'')" "Inl (Error ''offline'')" "Inl (Error ''offline'')"]
  by (simp add: nullish_def strings_def DEFAULT_CHOICES_def storyText_of_def data_output_def)

text \<open>
  Against C5 as stated: the copy variant, on a scene with three choices, throws
  \<^verbatim>\<open>Invalid choice index\<close> for the index 3.
\<close>

theorem makeChoice_copy_out_of_range_throws:
  "fst (makeChoice_copy (\<lambda>s. None)
     \<lparr>currentScene = JObj [(''text'', JStr ''You are in a forest.''), (''image'', JNull),
                          (''choices'', strings initialChoices)],
      history = [], choices = []\<rparr>
     (Integer 3) (Inr JNull) (Inr JNull) (Inr JNull))
   = Inl (Error ''Invalid choice index'')"
  by (simp add: makeChoice_copy_def Let_def get_def nullish_def get_element_def strings_def
      initialChoices_def)

text \<open>
  In the main variant a negative index that is not a multiple of 3 selects
  \<^verbatim>\<open>undefined\<close>: \<^verbatim>\<open>-1 % 3\<close> is \<^verbatim>\<open>-1\<close>, and \<^verbatim>\<open>DEFAULT_CHOICES[-1]\<close> does not exist.
\<close>

lemma selectChoice_negative:
  "selectChoice (strings DEFAULT_CHOICES) (Integer (- 1)) = JUndefined"
  by (simp add: selectChoice_def strings_def DEFAULT_CHOICES_def)

section \<open>The history\<close>



section \<open>An invalid index in the copy variant\<close>

text \<open>
  C10. \<^verbatim>\<open>makeChoice\<close> of the copy variant pushes the current scene onto the history before
  it looks at the index. When the scene has choices and the entry at the index is falsy,
  the call throws \<^verbatim>\<open>Invalid choice index\<close> without a request to the provider, and the
  engine it leaves behind has a history one entry longer than before.
\<close>

theorem makeChoice_copy_invalid_index_not_atomic:
  assumes "\<not> nullish (currentScene this)"
    and "\<not> nullish (field (currentScene this) ''choices'')"
    and "\<not> truthy (element (field (currentScene this) ''choices'') idx)"
  shows "makeChoice_copy parse this idx textOut imageOut choicesOut =
     (Inl (Error ''Invalid choice index''),
      this\<lparr>history := history this @ [spread (currentScene this)]\<rparr>, [])
    \<and> length (history (fst (snd (makeChoice_copy parse this idx textOut imageOut choicesOut))))
       = Suc (length (history this))"
  using makeChoice_copy_invalid [OF assms] by simp

theorem makeChoice_copy_invalid_index_not_atomic_witness:
  "makeChoice_copy (\<lambda>s. None)
     \<lparr>currentScene = JObj [(''text'', JStr ''You are in a forest.''), (''image'', JNull),
                          (''choices'', strings initialChoices)],
      history = [], choices = []\<rparr>
     (Integer 3) (Inr JNull) (Inr JNull) (Inr JNull) =
     (Inl (Error ''Invalid choice index''),
      \<lparr>currentScene = JObj [(''text'', JStr ''You are in a forest.''), (''image'', JNull),
                          (''choices'', strings initialChoices)],
       history = [JObj [(''text'', JStr ''You are in a forest.''), (''image'', JNull),
                          (''choices'', strings initialChoices)]], choices = []\<rparr>, [])
   \<and> length (history (fst (snd (makeChoice_copy (\<lambda>s. None)
     \<lparr>currentScene = JObj [(''text'', JStr ''You are in a forest.''), (''image'', JNull),
                          (''choices'', strings initialChoices)],
      history = [], choices = []\<rparr>
     (Integer 3) (Inr JNull) (Inr JNull) (Inr JNull))))) = Suc 0"
  using makeChoice_copy_invalid_index_not_atomic
    [of "\<lparr>currentScene = JObj [(''text'', JStr ''You are in a forest.''), (''image'', JNull),
                          (''choices'', strings initialChoices)],
      history = [], choices = []\<rparr>" "Integer 3" "\<lambda>s. None" "Inr JNull" "Inr JNull" "Inr JNull"]
  by (simp add: nullish_def strings_def initialChoices_def)


section \<open>Session identifiers\<close>

text \<open>The decimal digits of a number determine it.\<close>

lemma of_char_digit_char: "d < 10 \<Longrightarrow> of_char (digit_char d) = 48 + d"
proof -
  assume "d < 10"
  then have "d \<in> {0, 1, 2, 3, 4, 5, 6, 7, 8, 9}" by auto
  then show ?thesis by (auto simp add: digit_char_def)
qed

lemma read_nat_snoc: "read_nat (ds @ [c]) = 10 * read_nat ds + (of_char c - 48)"
  by (simp add: read_nat_def)

lemma read_show_nat: "read_nat (show_nat n) = n"
proof (induction n rule: show_nat.induct)
  case (1 n)
  show ?case
  proof (cases "n < 10")
    case True
    then show ?thesis by (subst show_nat.simps) (simp add: read_nat_def of_char_digit_char)
  next
    case False
    then have "read_nat (show_nat n) = 10 * (n div 10) + n mod 10"
      using "1.IH" by (subst show_nat.simps) (simp add: read_nat_snoc of_char_digit_char)
    then show ?thesis by simp
  qed
qed

lemma show_nat_inject: "show_nat m = show_nat n \<longleftrightarrow> m = n"
  by (metis read_show_nat)


lemma sceneResponse_sessionId:
  "sceneResponse pos sid scene sp = (Inr answer, r2) \<Longrightarrow>
   field (body answer) ''sessionId'' = sid \<and> status answer = 200"
  by (auto simp add: sceneResponse_def Let_def split: sum.splits)

lemma sceneResponse_copy_sessionId:
  "sceneResponse_copy parse sid scene = Inr answer \<Longrightarrow>
   field (body answer) ''sessionId'' = sid \<and> status answer = 200"
  by (auto simp add: sceneResponse_copy_def split: sum.splits)

lemma start_route_ok:
  assumes run: "start_route pos env S now t i c s = (resp, S', reqs)" and ok: "status resp = 200"
  shows "field (body resp) ''sessionId'' = JStr (show_nat now)
       \<and> (\<exists>game. S' = S(show_nat now \<mapsto> game))"
proof (cases "new_GameState env")
  case (Inl e)
  then show ?thesis using run ok by (auto simp add: start_route_def)
next
  case (Inr game0)
  obtain r game rq where sn: "startNewGame env game0 t i c = (r, game, rq)"
    using prod_cases3 by blast
  show ?thesis
  proof (cases r)
    case (Inl e)
    then show ?thesis using run ok Inr sn by (auto simp add: start_route_def)
  next
    case scene: (Inr initialScene)
    obtain a r2 where sr: "sceneResponse pos (JStr (show_nat now)) initialScene s = (a, r2)"
      using prod.exhaust by blast
    show ?thesis
    proof (cases a)
      case (Inl e)
      then show ?thesis using run ok Inr sn scene sr by (auto simp add: start_route_def)
    next
      case answer: (Inr answer)
      have "resp = answer" and "S' = S(show_nat now \<mapsto> game)"
        using run Inr sn scene sr answer by (simp_all add: start_route_def)
      then show ?thesis
        using sceneResponse_sessionId [of pos "JStr (show_nat now)" initialScene s answer r2]
          sr answer by auto
    qed
  qed
qed

lemma start_route_copy_ok:
  assumes run: "start_route_copy parse S now t i = (resp, S', reqs)" and ok: "status resp = 200"
  shows "field (body resp) ''sessionId'' = JStr (show_nat now)
       \<and> (\<exists>game. S' = S(show_nat now \<mapsto> game))"
proof -
  obtain initialScene game rq where sn:
    "startNewGame_copy new_GameState_copy t i = (initialScene, game, rq)"
    using prod_cases3 by blast
  show ?thesis
  proof (cases "sceneResponse_copy parse (JStr (show_nat now)) initialScene")
    case (Inl e)
    then show ?thesis using run ok sn by (auto simp add: start_route_copy_def)
  next
    case (Inr answer)
    have "resp = answer" and "S' = S(show_nat now \<mapsto> game)"
      using run sn Inr by (simp_all add: start_route_copy_def)
    then show ?thesis
      using sceneResponse_copy_sessionId [OF Inr] by auto
  qed
qed


lemmas route_eval =
  start_route_def new_GameState_def configureFalClient_def startNewGame_def
  generateStoryText_def generateStoryImage_def generateChoices_def get_def nullish_def Let_def
  sceneResponse_def storyText_of_def data_output_def generateSpeech_def imageUrl_of_def
  extractChoices_def extractChoices_try_def strings_def DEFAULT_CHOICES_def show_nat.simps
  digit_char_def

lemma two_starts:
  assumes a: "field (body resp1) ''sessionId'' = JStr (show_nat now1) \<and> (\<exists>game. S1 = S0(show_nat now1 \<mapsto> game))"
    and b: "field (body resp2) ''sessionId'' = JStr (show_nat now2) \<and> (\<exists>game. S2 = S1(show_nat now2 \<mapsto> game))"
  shows "field (body resp1) ''sessionId'' = JStr (show_nat now1)
     \<and> field (body resp2) ''sessionId'' = JStr (show_nat now2)
     \<and> ((field (body resp1) ''sessionId'' = field (body resp2) ''sessionId'') = (now1 = now2))
     \<and> (now1 \<noteq> now2 \<longrightarrow> S2 (show_nat now1) = S1 (show_nat now1) \<and> S1 (show_nat now1) \<noteq> None)"
  using a b by (auto simp add: show_nat_inject)

text \<open>
  C9, as the code has it. The identifier of a session is the decimal string of the
  clock reading \<^verbatim>\<open>Date.now()\<close> taken when the start request arrives, in both servers. Of
  two sessions created one after the other, the identifiers are equal exactly when the
  two readings are equal; when the readings differ, storing the second engine leaves the
  first one in the map.
\<close>

theorem session_ids_follow_clock:
  "(start_route pos env S0 now1 t1 i1 c1 s1 = (resp1, S1, reqs1) \<and> status resp1 = 200
    \<and> start_route pos env S1 now2 t2 i2 c2 s2 = (resp2, S2, reqs2) \<and> status resp2 = 200
    \<longrightarrow> field (body resp1) ''sessionId'' = JStr (show_nat now1)
      \<and> field (body resp2) ''sessionId'' = JStr (show_nat now2)
      \<and> ((field (body resp1) ''sessionId'' = field (body resp2) ''sessionId'') = (now1 = now2))
      \<and> (now1 \<noteq> now2 \<longrightarrow> S2 (show_nat now1) = S1 (show_nat now1) \<and> S1 (show_nat now1) \<noteq> None))
   \<and> (start_route_copy parse C0 now1 t1 i1 = (cresp1, C1, creqs1) \<and> status cresp1 = 200
    \<and> start_route_copy parse C1 now2 t2 i2 = (cresp2, C2, creqs2) \<and> status cresp2 = 200
    \<longrightarrow> field (body cresp1) ''sessionId'' = JStr (show_nat now1)
      \<and> field (body cresp2) ''sessionId'' = JStr (show_nat now2)
      \<and> ((field (body cresp1) ''sessionId'' = field (body cresp2) ''sessionId'') = (now1 = now2))
      \<and> (now1 \<noteq> now2 \<longrightarrow> C2 (show_nat now1) = C1 (show_nat now1) \<and> C1 (show_nat now1) \<noteq> None))"
proof (rule conjI; rule impI)
  assume h: "start_route pos env S0 now1 t1 i1 c1 s1 = (resp1, S1, reqs1) \<and> status resp1 = 200
    \<and> start_route pos env S1 now2 t2 i2 c2 s2 = (resp2, S2, reqs2) \<and> status resp2 = 200"
  show "field (body resp1) ''sessionId'' = JStr (show_nat now1)
      \<and> field (body resp2) ''sessionId'' = JStr (show_nat now2)
      \<and> ((field (body resp1) ''sessionId'' = field (body resp2) ''sessionId'') = (now1 = now2))
      \<and> (now1 \<noteq> now2 \<longrightarrow> S2 (show_nat now1) = S1 (show_nat now1) \<and> S1 (show_nat now1) \<noteq> None)"
  proof (rule two_starts)
    show "field (body resp1) ''sessionId'' = JStr (show_nat now1)
       \<and> (\<exists>game. S1 = S0(show_nat now1 \<mapsto> game))"
      using h start_route_ok [of pos env S0 now1 t1 i1 c1 s1 resp1 S1 reqs1] by simp
    show "field (body resp2) ''sessionId'' = JStr (show_nat now2)
       \<and> (\<exists>game. S2 = S1(show_nat now2 \<mapsto> game))"
      using h start_route_ok [of pos env S1 now2 t2 i2 c2 s2 resp2 S2 reqs2] by simp
  qed
next
  assume h: "start_route_copy parse C0 now1 t1 i1 = (cresp1, C1, creqs1) \<and> status cresp1 = 200
    \<and> start_route_copy parse C1 now2 t2 i2 = (cresp2, C2, creqs2) \<and> status cresp2 = 200"
  show "field (body cresp1) ''sessionId'' = JStr (show_nat now1)
      \<and> field (body cresp2) ''sessionId'' = JStr (show_nat now2)
      \<and> ((field (body cresp1) ''sessionId'' = field (body cresp2) ''sessionId'') = (now1 = now2))
      \<and> (now1 \<noteq> now2 \<longrightarrow> C2 (show_nat now1) = C1 (show_nat now1) \<and> C1 (show_nat now1) \<noteq> None)"
  proof (rule two_starts)
    show "field (body cresp1) ''sessionId'' = JStr (show_nat now1)
       \<and> (\<exists>game. C1 = C0(show_nat now1 \<mapsto> game))"
      using h start_route_copy_ok [of parse C0 now1 t1 i1 cresp1 C1 creqs1] by simp
    show "field (body cresp2) ''sessionId'' = JStr (show_nat now2)
       \<and> (\<exists>game. C2 = C1(show_nat now2 \<mapsto> game))"
      using h start_route_copy_ok [of parse C1 now2 t2 i2 cresp2 C2 creqs2] by simp
  qed
qed


lemmas route_copy_eval =
  start_route_copy_def startNewGame_copy_def new_GameState_copy_def generateStoryText_copy_def
  generateStoryImage_copy_def sceneResponse_copy_def imageUrl_copy_def get_def nullish_def Let_def

theorem session_ids_follow_clock_witness:
  "field (body (fst (start_route (\<lambda>s. False) (Some ''key'') Map.empty 1700000000000
       (Inr (JObj [(''data'', JObj [(''output'', JStr ''First story'')])]))
       (Inl (Error ''offline'')) (Inl (Error ''offline'')) (Inl (Error ''offline''))))) ''sessionId''
     = JStr ''1700000000000''
   \<and> field (body (fst (start_route (\<lambda>s. False) (Some ''key'')
       (fst (snd (start_route (\<lambda>s. False) (Some ''key'') Map.empty 1700000000000
          (Inr (JObj [(''data'', JObj [(''output'', JStr ''First story'')])]))
          (Inl (Error ''offline'')) (Inl (Error ''offline'')) (Inl (Error ''offline'')))))
       1700000000001
       (Inr (JObj [(''data'', JObj [(''output'', JStr ''First story'')])]))
       (Inl (Error ''offline'')) (Inl (Error ''offline'')) (Inl (Error ''offline''))))) ''sessionId''
     = JStr ''1700000000001''
   \<and> fst (snd (start_route (\<lambda>s. False) (Some ''key'')
       (fst (snd (start_route (\<lambda>s. False) (Some ''key'') Map.empty 1700000000000
          (Inr (JObj [(''data'', JObj [(''output'', JStr ''First story'')])]))
          (Inl (Error ''offline'')) (Inl (Error ''offline'')) (Inl (Error ''offline'')))))
       1700000000001
       (Inr (JObj [(''data'', JObj [(''output'', JStr ''First story'')])]))
       (Inl (Error ''offline'')) (Inl (Error ''offline'')) (Inl (Error ''offline'')))) ''1700000000000''
     = fst (snd (start_route (\<lambda>s. False) (Some ''key'') Map.empty 1700000000000
          (Inr (JObj [(''data'', JObj [(''output'', JStr ''First story'')])]))
          (Inl (Error ''offline'')) (Inl (Error ''offline'')) (Inl (Error ''offline'')))) ''1700000000000''
   \<and> field (body (fst (start_route_copy (\<lambda>s. None)
       (fst (snd (start_route_copy (\<lambda>s. None) Map.empty 1700000000000
          (Inr (JObj [(''data'', JObj [(''output'', JStr ''First story'')])]))
          (Inl (Error ''offline'')))))
       1700000000001
       (Inr (JObj [(''data'', JObj [(''output'', JStr ''First story'')])]))
       (Inl (Error ''offline''))))) ''sessionId''
     = JStr ''1700000000001''"
proof -
  let ?off = "Inl (Error ''offline'') :: outcome"
  let ?t = "Inr (JObj [(''data'', JObj [(''output'', JStr ''First story'')])]) :: outcome"
  let ?X1 = "start_route (\<lambda>s. False) (Some ''key'') Map.empty 1700000000000 ?t ?off ?off ?off"
  let ?X2 = "start_route (\<lambda>s. False) (Some ''key'') (fst (snd ?X1)) 1700000000001 ?t ?off ?off ?off"
  let ?Y1 = "start_route_copy (\<lambda>s. None) Map.empty 1700000000000 ?t ?off"
  let ?Y2 = "start_route_copy (\<lambda>s. None) (fst (snd ?Y1)) 1700000000001 ?t ?off"
  have s1: "status (fst ?X1) = 200" by (simp add: route_eval)
  have s2: "status (fst ?X2) = 200" by (simp add: route_eval)
  have c1: "status (fst ?Y1) = 200" by (simp add: route_copy_eval)
  have c2: "status (fst ?Y2) = 200" by (simp add: route_copy_eval)
  have n1: "show_nat 1700000000000 = ''1700000000000''" by (simp add: show_nat.simps digit_char_def)
  have n2: "show_nat 1700000000001 = ''1700000000001''" by (simp add: show_nat.simps digit_char_def)
  from session_ids_follow_clock
    [of "\<lambda>s. False" "Some ''key''" Map.empty 1700000000000 ?t ?off ?off ?off
        "fst ?X1" "fst (snd ?X1)" "snd (snd ?X1)" 1700000000001 ?t ?off ?off ?off
        "fst ?X2" "fst (snd ?X2)" "snd (snd ?X2)"
        "\<lambda>s. None" Map.empty "fst ?Y1" "fst (snd ?Y1)" "snd (snd ?Y1)"
        "fst ?Y2" "fst (snd ?Y2)" "snd (snd ?Y2)"]
  show ?thesis using s1 s2 c1 c2 by (simp add: n1 n2)
qed


text \<open>
  Against C9 as stated: two start requests served at the same reading of the clock get
  the same identifier, and after the second the map no longer holds the engine of the
  first under it.
\<close>

theorem start_route_same_instant_collides:
  "field (body (fst (start_route (\<lambda>s. False) (Some ''key'') Map.empty 1700000000000
       (Inr (JObj [(''data'', JObj [(''output'', JStr ''First story'')])]))
       (Inl (Error ''offline'')) (Inl (Error ''offline'')) (Inl (Error ''offline''))))) ''sessionId''
   = field (body (fst (start_route (\<lambda>s. False) (Some ''key'')
       (fst (snd (start_route (\<lambda>s. False) (Some ''key'') Map.empty 1700000000000
          (Inr (JObj [(''data'', JObj [(''output'', JStr ''First story'')])]))
          (Inl (Error ''offline'')) (Inl (Error ''offline'')) (Inl (Error ''offline'')))))
       1700000000000
       (Inr (JObj [(''data'', JObj [(''output'', JStr ''Second story'')])]))
       (Inl (Error ''offline'')) (Inl (Error ''offline'')) (Inl (Error ''offline''))))) ''sessionId''
  \<and> fst (snd (start_route (\<lambda>s. False) (Some ''key'')
       (fst (snd (start_route (\<lambda>s. False) (Some ''key'') Map.empty 1700000000000
          (Inr (JObj [(''data'', JObj [(''output'', JStr ''First story'')])]))
          (Inl (Error ''offline'')) (Inl (Error ''offline'')) (Inl (Error ''offline'')))))
       1700000000000
       (Inr (JObj [(''data'', JObj [(''output'', JStr ''Second story'')])]))
       (Inl (Error ''offline'')) (Inl (Error ''offline'')) (Inl (Error ''offline'')))) ''1700000000000''
    \<noteq> fst (snd (start_route (\<lambda>s. False) (Some ''key'') Map.empty 1700000000000
          (Inr (JObj [(''data'', JObj [(''output'', JStr ''First story'')])]))
          (Inl (Error ''offline'')) (Inl (Error ''offline'')) (Inl (Error ''offline'')))) ''1700000000000''"
  by (simp add: route_eval)


section \<open>Text extraction\<close>

lemma show_nat_nonempty: "show_nat n \<noteq> []"
  by (subst show_nat.simps) simp

lemma stringify_nonempty: "stringify v = Some t \<Longrightarrow> t \<noteq> []"
proof (cases v)
  case (JNum n)
  then show "stringify v = Some t \<Longrightarrow> t \<noteq> []"
    by (cases n) (auto simp add: show_int_def show_nat_nonempty split: if_splits)
qed (auto simp add: json_quote_def split: if_splits)

lemma stringify_defined: "v \<noteq> JUndefined \<Longrightarrow> \<exists>t. stringify v = Some t"
proof (cases v)
  case (JNum n)
  then show ?thesis by (cases n) simp_all
qed simp_all

lemma parsed_output_or_cases:
  "parsed_output_or parse s = JStr s
   \<or> (\<exists>p. parse s = Some p \<and> truthy (field p ''output'')
          \<and> parsed_output_or parse s = field p ''output'')"
  by (auto simp add: parsed_output_or_def get_def split: option.splits)

text \<open>
  C2, as the code has it. For every response and whatever \<^verbatim>\<open>JSON.parse\<close> does,
  \<^verbatim>\<open>extractText\<close> returns without an exception reaching its \<^verbatim>\<open>catch\<close>, and what it returns
  is truthy: never null, undefined or the empty string. The result is a non-empty string
  unless it is the \<^verbatim>\<open>output\<close> or \<^verbatim>\<open>text\<close> field that the function selects (of the
  response, of its \<^verbatim>\<open>data\<close>, or of the parsed JSON text), which is returned as it is,
  whatever its type.
\<close>

theorem extractText_total:
  "(\<exists>v. extractText_try parse r = Inr v)
   \<and> truthy (extractText parse r)
   \<and> (nonempty_string (extractText parse r)
      \<or> extractText parse r = field r ''output''
      \<or> extractText parse r = field r ''text''
      \<or> extractText parse r = field (field r ''data'') ''output''
      \<or> (\<exists>s p. parse s = Some p \<and> extractText parse r = field p ''output''))"
proof -
  have total: "\<exists>v. extractText_try parse r = Inr v"
    by (simp add: extractText_try_def Let_def split: jsval.splits)
  have str: "\<And>s. s \<noteq> [] \<Longrightarrow> truthy (parsed_output_or parse s)
       \<and> (nonempty_string (parsed_output_or parse s)
           \<or> (\<exists>t p. parse t = Some p \<and> parsed_output_or parse s = field p ''output''))"
    using parsed_output_or_cases by (metis nonempty_string.simps(1) truthy.simps(6))
  have json: "\<And>d. truthy d \<Longrightarrow>
       truthy (case stringify d of Some t \<Rightarrow> JStr t | None \<Rightarrow> JUndefined)
       \<and> nonempty_string (case stringify d of Some t \<Rightarrow> JStr t | None \<Rightarrow> JUndefined)"
  proof -
    fix d assume "truthy d"
    then have "d \<noteq> JUndefined" by auto
    then obtain t where t: "stringify d = Some t" using stringify_defined by blast
    then show "truthy (case stringify d of Some t \<Rightarrow> JStr t | None \<Rightarrow> JUndefined)
       \<and> nonempty_string (case stringify d of Some t \<Rightarrow> JStr t | None \<Rightarrow> JUndefined)"
      using stringify_nonempty [OF t] by simp
  qed
  have main: "truthy (extractText parse r)
   \<and> (nonempty_string (extractText parse r)
      \<or> extractText parse r = field r ''output''
      \<or> extractText parse r = field r ''text''
      \<or> extractText parse r = field (field r ''data'') ''output''
      \<or> (\<exists>s p. parse s = Some p \<and> extractText parse r = field p ''output''))"
  proof (cases "truthy r")
    case False
    then show ?thesis by (simp add: extractText_def extractText_try_def)
  next
    case True
    show ?thesis
    proof (cases r)
      case (JStr s)
      then show ?thesis using True str [of s] by (auto simp add: extractText_def extractText_try_def)
    next
      case (JArr xs)
      then show ?thesis by (simp add: extractText_def extractText_try_def)
    next
      case (JObj kvs)
      show ?thesis
      proof (cases "truthy (field r ''data'')")
        case False
        then show ?thesis using JObj
          by (simp add: extractText_def extractText_try_def)
      next
        case data: True
        show ?thesis
        proof (cases "field r ''data''")
          case (JStr d)
          then show ?thesis using JObj data str [of d]
            by (auto simp add: extractText_def extractText_try_def)
        qed (use JObj data json [of "field r ''data''"] in
              \<open>auto simp add: extractText_def extractText_try_def Let_def\<close>)
      qed
    qed (use True in \<open>simp_all add: extractText_def extractText_try_def\<close>)
  qed
  show ?thesis using total main by blast
qed


theorem extractText_total_witness:
  "truthy (extractText (\<lambda>s. None) (JObj [(''data'', JObj [(''output'', JStr ''Once upon a time'')])]))
   \<and> extractText (\<lambda>s. None) (JObj [(''data'', JObj [(''output'', JStr ''Once upon a time'')])])
       = JStr ''Once upon a time''"
  using extractText_total [of "\<lambda>s. None" "JObj [(''data'', JObj [(''output'', JStr ''Once upon a time'')])]"]
  by (simp add: extractText_def extractText_try_def)

text \<open>
  Against C2 as stated: a response whose \<^verbatim>\<open>output\<close> is an object, or whose \<^verbatim>\<open>data.output\<close>
  is one, gets that object back, not a string.
\<close>

theorem extractText_returns_object:
  "\<not> nonempty_string (extractText (\<lambda>s. None)
        (JObj [(''output'', JObj [(''story'', JStr ''Once upon a time'')])]))
   \<and> extractText (\<lambda>s. None) (JObj [(''output'', JObj [(''story'', JStr ''Once upon a time'')])])
       = JObj [(''story'', JStr ''Once upon a time'')]
   \<and> \<not> nonempty_string (extractText (\<lambda>s. None)
        (JObj [(''data'', JObj [(''output'', JObj [(''story'', JStr ''Once upon a time'')])])]))"
  by (simp add: extractText_def extractText_try_def)

section \<open>Choice extraction\<close>






















section \<open>The default choices\<close>







section \<open>The round trip of a fenced array\<close>



























section \<open>The text of a scene\<close>















end
